theory Spec2Isabelle
  imports Main "HOL-Library.Sublist"
begin

section \<open>Python strings\<close>

text \<open>
  The program is \<^verbatim>\<open>app.py\<close>, a Python 3 script. A Python \<^verbatim>\<open>str\<close> is a sequence of
  code points; a \<^typ>\<open>char\<close> of HOL has 256 values. The embedding reads a \<^typ>\<open>char\<close>
  as the code point of the same number, so a \<^typ>\<open>string\<close> is a Python string whose
  code points are all below 256 (ASCII and the Latin-1 supplement). On that range
  \<^verbatim>\<open>str.lower\<close> acts character by character and the three built-ins the program uses
  (\<^verbatim>\<open>str.lower\<close>, \<^verbatim>\<open>str.strip\<close>, the regular-expression class \<^verbatim>\<open>\s\<close>) are the
  functions below.
\<close>

definition py_isspace :: "char \<Rightarrow> bool" where
  \<comment> \<open>The white space of \<^verbatim>\<open>str.strip()\<close> and of \<^verbatim>\<open>\s\<close> in a \<^verbatim>\<open>str\<close> pattern:
      TAB, LF, VT, FF, CR, the separators 0x1C to 0x1F, SPACE, NEL (0x85), NBSP (0xA0).\<close>
  "py_isspace c =
     (let n = (of_char c :: nat)
      in (9 \<le> n \<and> n \<le> 13) \<or> (28 \<le> n \<and> n \<le> 32) \<or> n = 133 \<or> n = 160)"

definition py_isalpha :: "char \<Rightarrow> bool" where
  \<comment> \<open>\<^verbatim>\<open>str.isalpha\<close> on one character: the ASCII letters, 0xAA, 0xB5, 0xBA and the
      Latin-1 letters 0xC0 to 0xFF apart from the signs 0xD7 and 0xF7.\<close>
  "py_isalpha c =
     (let n = (of_char c :: nat)
      in (65 \<le> n \<and> n \<le> 90) \<or> (97 \<le> n \<and> n \<le> 122) \<or> n = 170 \<or> n = 181 \<or> n = 186
         \<or> (192 \<le> n \<and> n \<noteq> 215 \<and> n \<noteq> 247))"

definition py_lower_char :: "char \<Rightarrow> char" where
  \<comment> \<open>\<^verbatim>\<open>str.lower\<close> on one character: A to Z and the capitals 0xC0 to 0xDE (0xD7, the
      multiplication sign, apart) move up by 32, every other character stays.\<close>
  "py_lower_char c =
     (let n = (of_char c :: nat)
      in if (65 \<le> n \<and> n \<le> 90) \<or> (192 \<le> n \<and> n \<le> 222 \<and> n \<noteq> 215)
         then char_of (n + 32) else c)"

definition py_lower :: "string \<Rightarrow> string" where
  "py_lower s = map py_lower_char s"

definition py_strip :: "string \<Rightarrow> string" where
  \<comment> \<open>\<^verbatim>\<open>str.strip()\<close>: white space removed at both ends.\<close>
  "py_strip s = rev (dropWhile py_isspace (rev (dropWhile py_isspace s)))"

definition py_in :: "string \<Rightarrow> string \<Rightarrow> bool" where
  \<comment> \<open>\<^verbatim>\<open>kw in text\<close> on two strings: \<open>kw\<close> occurs in \<open>text\<close> as a contiguous run.\<close>
  "py_in kw text = sublist kw text"

section \<open>Text cleaning\<close>

definition is_a_to_z :: "char \<Rightarrow> bool" where
  \<comment> \<open>The range \<^verbatim>\<open>a-z\<close> of the character class.\<close>
  "is_a_to_z c = (let n = (of_char c :: nat) in 97 \<le> n \<and> n \<le> 122)"

definition clean_text :: "string \<Rightarrow> string" where
  \<comment> \<open>\<^verbatim>\<open>text = str(text).lower(); text = re.sub(r'[^a-z\s]', '', text)\<close>: every character
      outside the class is replaced by nothing, the others are kept where they are.\<close>
  "clean_text text =
     (let text = py_lower text;
          text = filter (\<lambda>c. is_a_to_z c \<or> py_isspace c) text
      in text)"

section \<open>Keyword and topic look-ups\<close>

text \<open>
  A dictionary whose order matters is an association list in insertion order, which is
  the order \<^verbatim>\<open>dict.items()\<close> iterates in.
\<close>

definition dict_get_default :: "('k \<times> 'v) list \<Rightarrow> 'k \<Rightarrow> 'v \<Rightarrow> 'v" where
  \<comment> \<open>\<^verbatim>\<open>d.get(k, default)\<close>\<close>
  "dict_get_default d k dflt = (case map_of d k of None \<Rightarrow> dflt | Some v \<Rightarrow> v)"

definition get_top_keywords ::
  "string \<Rightarrow> (string \<times> string list) list \<Rightarrow> string \<Rightarrow> string list" where
  "get_top_keywords text keyword_dict review_type =
     (let text_lower = py_lower text;
          keywords = dict_get_default keyword_dict (py_lower review_type) []
      in filter (\<lambda>kw. py_in kw text_lower) keywords)"

datatype py_exception = IndexError | AttributeError | OtherException string

datatype topic_num = TopicId int | NA

definition topic_candidates :: "(int \<times> string) list \<Rightarrow> string \<Rightarrow> int list" where
  \<comment> \<open>\<^verbatim>\<open>[k for k, v in topic_mapping.items() if v == category]\<close>\<close>
  "topic_candidates topic_mapping category =
     map fst (filter (\<lambda>(k, v). v = category) topic_mapping)"

definition topic_num_of :: "(int \<times> string) list \<Rightarrow> string \<Rightarrow> topic_num" where
  \<comment> \<open>The two lines of \<^verbatim>\<open>main\<close> under "Product Category Info", on a dictionary:
      the candidates, then
      \<^verbatim>\<open>topic_num = topic_candidates[0] if topic_candidates else "N/A"\<close>.
      \<open>NA\<close> is the marker \<^verbatim>\<open>"N/A"\<close>.\<close>
  "topic_num_of topic_mapping category =
     (case topic_candidates topic_mapping category of
        [] \<Rightarrow> NA
      | k # _ \<Rightarrow> TopicId k)"

definition get_category_keywords :: "(int \<times> string) list \<Rightarrow> string \<Rightarrow> py_exception + int" where
  \<comment> \<open>The helper \<^verbatim>\<open>get_category_keywords\<close>, which \<^verbatim>\<open>main\<close> never calls: it indexes the
      candidates with \<^verbatim>\<open>[0]\<close> unguarded and returns the text \<^verbatim>\<open>f"Topic {topic_num} keywords"\<close>;
      the model returns the topic number put into that text.\<close>
  "get_category_keywords topic_mapping category =
     (case topic_candidates topic_mapping category of
        [] \<Rightarrow> Inl IndexError
      | k # _ \<Rightarrow> Inr k)"

section \<open>Loading the artifacts\<close>

text \<open>
  An artifact is whatever \<^verbatim>\<open>joblib.load\<close> reads from a file: a classifier, whose only
  capability used is \<^verbatim>\<open>predict\<close> (a list of texts in, a sequence of labels out, or an
  exception), one of the two look-up tables, or an object of another kind. The file system
  and the deserializer are the environment of the program. The exceptions of the model
  are the instances of \<^verbatim>\<open>Exception\<close>, the class every handler of the program names.
\<close>

type_synonym predictor = "string list \<Rightarrow> py_exception + string list"

datatype artifact =
    Classifier predictor
  | TopicMapping "(int \<times> string) list"
  | ReviewKeywords "(string \<times> string list) list"
  | OtherObject

record env =
  path_exists :: "string \<Rightarrow> bool"
  joblib_load :: "string \<Rightarrow> py_exception + artifact option"

definition try_load_body :: "env \<Rightarrow> string \<Rightarrow> py_exception + artifact option" where
  \<comment> \<open>The \<^verbatim>\<open>try\<close> block of \<^verbatim>\<open>try_load\<close> with the \<^verbatim>\<open>return None\<close> that follows it:
      \<^verbatim>\<open>if os.path.exists(path): return joblib.load(path)\<close>. The loaded object may be
      \<^verbatim>\<open>None\<close> itself.\<close>
  "try_load_body env path =
     (if path_exists env path then joblib_load env path else Inr None)"

definition try_load :: "env \<Rightarrow> string \<Rightarrow> artifact option" where
  \<comment> \<open>\<^verbatim>\<open>except Exception: return None\<close> around the block.\<close>
  "try_load env path =
     (case try_load_body env path of Inl e \<Rightarrow> None | Inr obj \<Rightarrow> obj)"

definition model_paths :: "(string \<times> string) list" where
  \<comment> \<open>The keys of the dictionary \<^verbatim>\<open>models\<close> and the path each one is loaded from.\<close>
  "model_paths =
     [(''sentiment'', ''models/sentiment_model.pkl''),
      (''review_type'', ''models/reviewtype_model.pkl''),
      (''product_category'', ''models/department_model.pkl''),
      (''topic_mapping'', ''models/topic_category_mapping.pkl''),
      (''review_keywords'', ''models/reviewtype_keywords.pkl''),
      (''vectorizer'', ''models/vectorizer.pkl'')]"

type_synonym models = "(string \<times> artifact option) list"

definition load_models :: "env \<Rightarrow> models" where
  \<comment> \<open>The dictionary literal of \<^verbatim>\<open>load_models\<close>: one \<^verbatim>\<open>try_load\<close> per key, in the order
      written. The decorator \<^verbatim>\<open>st.cache_resource\<close> keeps the first result for later calls;
      one call is modelled.\<close>
  "load_models env = map (\<lambda>(name, path). (name, try_load env path)) model_paths"

definition dict_get :: "('k \<times> 'v option) list \<Rightarrow> 'k \<Rightarrow> 'v option" where
  \<comment> \<open>\<^verbatim>\<open>d.get(k)\<close>: \<^verbatim>\<open>None\<close> for a missing key as for a key bound to \<^verbatim>\<open>None\<close>.\<close>
  "dict_get d k = dict_get_default d k None"

section \<open>The three predictions\<close>

datatype call = Predict string "string list"
  \<comment> \<open>\<^verbatim>\<open>models[axis].predict(texts)\<close> was invoked.\<close>

record analysis =
  sentiment :: "string option"
  review_type :: "string option"
  category :: "string option"
  cleaned_text :: string

datatype outcome = Warning string | Analysis analysis

definition predict_first ::
  "string \<Rightarrow> artifact \<Rightarrow> string \<Rightarrow> (py_exception + string) \<times> call list" where
  \<comment> \<open>The body of one \<^verbatim>\<open>try\<close> block, \<^verbatim>\<open>models[axis].predict([cleaned_text])[0]\<close>, with the
      invocations it makes: an object without \<^verbatim>\<open>predict\<close> raises before any call, the
      index \<^verbatim>\<open>[0]\<close> raises on an empty result.\<close>
  "predict_first axis m text =
     (case m of
        Classifier predict \<Rightarrow>
          (case predict [text] of
             Inl e \<Rightarrow> Inl e
           | Inr [] \<Rightarrow> Inl IndexError
           | Inr (y # _) \<Rightarrow> Inr y,
           [Predict axis [text]])
      | _ \<Rightarrow> (Inl AttributeError, []))"

definition predict_axis :: "models \<Rightarrow> string \<Rightarrow> string \<Rightarrow> string option \<times> call list" where
  \<comment> \<open>One of the three blocks of \<^verbatim>\<open>main\<close>: the variable starts as \<^verbatim>\<open>None\<close>;
      \<^verbatim>\<open>if models.get(axis) is not None: try: v = ... except Exception: v = None\<close>.\<close>
  "predict_axis models axis text =
     (case dict_get models axis of
        None \<Rightarrow> (None, [])
      | Some m \<Rightarrow>
          (case predict_first axis m text of
             (Inl e, calls) \<Rightarrow> (None, calls)
           | (Inr y, calls) \<Rightarrow> (Some y, calls)))"

definition main_predictions :: "models \<Rightarrow> string \<Rightarrow> analysis \<times> call list" where
  \<comment> \<open>\<^verbatim>\<open>main\<close> from \<^verbatim>\<open>cleaned_text = clean_text(review)\<close> to the end of the spinner block.\<close>
  "main_predictions models review =
     (let text = clean_text review;
          (s, calls1) = predict_axis models ''sentiment'' text;
          (r, calls2) = predict_axis models ''review_type'' text;
          (c, calls3) = predict_axis models ''product_category'' text
      in (\<lparr>sentiment = s, review_type = r, category = c, cleaned_text = text\<rparr>,
          calls1 @ calls2 @ calls3))"

definition main_analyze :: "env \<Rightarrow> string \<Rightarrow> outcome \<times> call list" where
  \<comment> \<open>\<^verbatim>\<open>main\<close> once the button "Analyze" is pressed, up to the predictions:
      \<^verbatim>\<open>if not review.strip(): st.warning(...)\<close>, else the models are loaded and run.\<close>
  "main_analyze env review =
     (if py_strip review = [] then (Warning ''Please enter a review'', [])
      else
        (let models = load_models env;
             (a, calls) = main_predictions models review
         in (Analysis a, calls)))"

definition is_classifier :: "artifact option \<Rightarrow> bool" where
  \<comment> \<open>The slot of the dictionary holds an object with \<^verbatim>\<open>predict\<close>.\<close>
  "is_classifier obj = (case obj of Some (Classifier predict) \<Rightarrow> True | _ \<Rightarrow> False)"

section \<open>The topic number of a category\<close>

definition main_topic_num :: "artifact \<Rightarrow> string \<Rightarrow> topic_num" where
  \<comment> \<open>The same two lines on the loaded object \<^verbatim>\<open>models['topic_mapping']\<close>, inside their
      \<^verbatim>\<open>try\<close>: an object without \<^verbatim>\<open>items\<close> raises, and
      \<^verbatim>\<open>except Exception: topic_num = "N/A"\<close>. \<open>label\<close> is the predicted
      \<^verbatim>\<open>category\<close>.\<close>
  "main_topic_num obj label =
     (case (case obj of
              TopicMapping topic_mapping \<Rightarrow> Inr (topic_num_of topic_mapping label)
            | _ \<Rightarrow> Inl AttributeError) of
        Inl e \<Rightarrow> NA
      | Inr n \<Rightarrow> n)"

section \<open>Example artifacts\<close>

text \<open>
  Two classifiers and two sets of artifacts to run the program on: in \<open>demo_env\<close> the
  sentiment model is there and answers, the review-type model is there and raises, the file
  of the category model is missing, and every other file is corrupt; in \<open>all_positive\<close> the
  three models are there and answer.
\<close>

definition always_positive :: predictor where
  "always_positive texts = Inr (map (\<lambda>t. ''Positive'') texts)"

definition always_fails :: predictor where
  "always_fails texts = Inl (OtherException ''model failure'')"

definition demo_env :: env where
  "demo_env =
     \<lparr>path_exists = (\<lambda>path. path \<noteq> ''models/department_model.pkl''),
      joblib_load = (\<lambda>path.
        if path = ''models/sentiment_model.pkl'' then Inr (Some (Classifier always_positive))
        else if path = ''models/reviewtype_model.pkl'' then Inr (Some (Classifier always_fails))
        else Inl (OtherException ''corrupt file''))\<rparr>"

definition all_positive :: models where
  "all_positive =
     [(''sentiment'', Some (Classifier always_positive)),
      (''review_type'', Some (Classifier always_positive)),
      (''product_category'', Some (Classifier always_positive))]"

section \<open>Evaluation and the character functions\<close>

lemmas eval_simps =
  clean_text_def py_lower_def py_lower_char_def is_a_to_z_def py_isspace_def py_isalpha_def
  char_of_def bit_Suc_0_iff

lemma py_lower_char_fixed: "is_a_to_z c \<or> py_isspace c \<Longrightarrow> py_lower_char c = c"
  by (auto simp: is_a_to_z_def py_isspace_def py_lower_char_def Let_def)

lemma of_char_lower:
  "of_char (py_lower_char c) =
     (let n = (of_char c :: nat)
      in if (65 \<le> n \<and> n \<le> 90) \<or> (192 \<le> n \<and> n \<le> 222 \<and> n \<noteq> 215) then n + 32 else n)"
  by (auto simp: py_lower_char_def Let_def)

lemma py_isspace_lower: "py_isspace (py_lower_char c) = py_isspace c"
  by (auto simp: py_isspace_def of_char_lower Let_def)

lemma clean_text_filter:
  "clean_text x = filter (\<lambda>c. is_a_to_z c \<or> py_isspace c) (map py_lower_char x)"
  by (simp add: clean_text_def py_lower_def)

lemma py_lower_clean_text: "py_lower (clean_text x) = clean_text x"
  unfolding clean_text_filter py_lower_def
  by (rule map_idI) (simp add: py_lower_char_fixed)

lemma filter_isspace_clean_text: "filter py_isspace (clean_text x) = filter py_isspace x"
  unfolding clean_text_filter
  by (induction x) (auto simp: py_isspace_lower py_lower_char_fixed)

lemma topic_candidates_none:
  "label \<notin> snd ` set topic_mapping \<Longrightarrow> topic_candidates topic_mapping label = []"
  by (induction topic_mapping) (auto simp: topic_candidates_def)

lemma topic_candidates_append:
  "topic_candidates (pre @ post) label = topic_candidates pre label @ topic_candidates post label"
  by (simp add: topic_candidates_def)

lemma topic_candidates_first:
  "label \<notin> snd ` set pre \<Longrightarrow>
   topic_candidates (pre @ (k, label) # post) label = k # topic_candidates post label"
  by (simp add: topic_candidates_append topic_candidates_none) (simp add: topic_candidates_def)

section \<open>The loader and the predictions, step by step\<close>

lemma py_strip_empty_iff: "py_strip s = [] \<longleftrightarrow> (\<forall>c \<in> set s. py_isspace c)"
proof
  assume "py_strip s = []"
  then have "\<forall>c \<in> set (dropWhile py_isspace s). py_isspace c"
    by (simp add: py_strip_def dropWhile_eq_Nil_conv)
  then have "dropWhile py_isspace s = []"
    by (metis hd_dropWhile list.set_sel(1))
  then show "\<forall>c \<in> set s. py_isspace c"
    by (simp add: dropWhile_eq_Nil_conv)
next
  assume "\<forall>c \<in> set s. py_isspace c"
  then have d: "dropWhile py_isspace s = []"
    by (simp add: dropWhile_eq_Nil_conv)
  show "py_strip s = []"
    unfolding py_strip_def d by simp
qed

lemma not_alpha_not_a_to_z: "\<not> py_isalpha c \<Longrightarrow> \<not> is_a_to_z (py_lower_char c)"
  by (auto simp: py_isalpha_def is_a_to_z_def of_char_lower Let_def)

lemma clean_text_no_alpha:
  "\<forall>c \<in> set review. \<not> py_isalpha c \<Longrightarrow> \<forall>c \<in> set (clean_text review). py_isspace c"
  by (auto simp: clean_text_filter not_alpha_not_a_to_z)

lemma try_load_absent:
  "\<not> path_exists env path \<or> (\<exists>e. joblib_load env path = Inl e) \<Longrightarrow> try_load env path = None"
  by (auto simp: try_load_def try_load_body_def)

lemma distinct_model_names: "distinct (map fst model_paths)"
  by (simp add: model_paths_def)

lemma load_models_keys: "map fst (load_models env) = map fst model_paths"
  by (simp add: load_models_def split_beta)

lemma dict_get_load_models:
  assumes "(name, path) \<in> set model_paths"
  shows "dict_get (load_models env) name = try_load env path"
proof -
  have "map_of model_paths name = Some path"
    using distinct_model_names assms by (rule map_of_is_SomeI)
  then have "map_of (load_models env) name = Some (try_load env path)"
    by (simp add: load_models_def map_of_map)
  then show ?thesis
    by (simp add: dict_get_def dict_get_default_def)
qed

lemma fst_predict_axis:
  "fst (predict_axis models axis text) = Some y \<longleftrightarrow>
     (\<exists>predict ys. dict_get models axis = Some (Classifier predict) \<and> predict [text] = Inr (y # ys))"
  by (auto simp: predict_axis_def predict_first_def
           split: option.splits artifact.splits sum.splits list.splits)

lemma fst_predict_axis_cong:
  "dict_get models axis = dict_get models' axis \<Longrightarrow>
   fst (predict_axis models axis text) = fst (predict_axis models' axis text)"
  by (simp add: predict_axis_def)

lemma snd_predict_axis:
  "snd (predict_axis models axis text) =
     (if is_classifier (dict_get models axis) then [Predict axis [text]] else [])"
  by (auto simp: predict_axis_def predict_first_def is_classifier_def
           split: option.splits artifact.splits sum.splits list.splits)

lemma main_predictions_eq:
  "main_predictions models review =
     (\<lparr>sentiment = fst (predict_axis models ''sentiment'' (clean_text review)),
       review_type = fst (predict_axis models ''review_type'' (clean_text review)),
       category = fst (predict_axis models ''product_category'' (clean_text review)),
       cleaned_text = clean_text review\<rparr>,
      snd (predict_axis models ''sentiment'' (clean_text review))
      @ snd (predict_axis models ''review_type'' (clean_text review))
      @ snd (predict_axis models ''product_category'' (clean_text review)))"
  by (simp add: main_predictions_def Let_def split_beta)

lemma main_analyze_nonblank:
  "\<exists>c \<in> set review. \<not> py_isspace c \<Longrightarrow>
   main_analyze env review =
     (Analysis (fst (main_predictions (load_models env) review)),
      snd (main_predictions (load_models env) review))"
  using py_strip_empty_iff [of review]
  by (auto simp: main_analyze_def Let_def split_beta)

lemma demo_env_models:
  "load_models demo_env =
     [(''sentiment'', Some (Classifier always_positive)),
      (''review_type'', Some (Classifier always_fails)),
      (''product_category'', None),
      (''topic_mapping'', None),
      (''review_keywords'', None),
      (''vectorizer'', None)]"
  by (simp add: load_models_def model_paths_def try_load_def try_load_body_def demo_env_def)

lemmas run_simps =
  main_analyze_def main_predictions_def predict_axis_def predict_first_def
  dict_get_def dict_get_default_def py_strip_def always_positive_def always_fails_def Let_def

lemma demo_env_sentiment:
  "dict_get (load_models demo_env) ''sentiment'' = Some (Classifier always_positive)"
  by (simp add: demo_env_models dict_get_def dict_get_default_def)

lemma demo_env_review_type:
  "dict_get (load_models demo_env) ''review_type'' = Some (Classifier always_fails)"
  by (simp add: demo_env_models dict_get_def dict_get_default_def)

section \<open>The text normalizer\<close>

text \<open>
  C7. For every string \<open>x\<close>, every character of \<open>clean_text x\<close> is a lowercase letter
  \<^verbatim>\<open>a-z\<close> or white space, so digits, punctuation and symbols are gone; the result is
  lowercased (lowercasing it again changes nothing); and the white space of \<open>x\<close> is all
  still there, character for character and in order, so no run of it is collapsed.
  \<open>clean_text\<close> has no failing branch: it is a total function.
\<close>

theorem clean_text_chars:
  "(\<forall>c \<in> set (clean_text x). is_a_to_z c \<or> py_isspace c)
   \<and> py_lower (clean_text x) = clean_text x
   \<and> filter py_isspace (clean_text x) = filter py_isspace x"
  by (simp add: py_lower_clean_text filter_isspace_clean_text) (simp add: clean_text_filter)

theorem clean_text_chars_witness:
  "list_all (\<lambda>c. is_a_to_z c \<or> py_isspace c) (clean_text ''Size 8, fits!'')
   \<and> clean_text ''Size 8, fits!'' = ''size  fits''
   \<and> filter py_isspace (clean_text ''Size 8, fits!'') = ''  ''"
proof -
  have "clean_text ''Size 8, fits!'' = ''size  fits''"
    by (simp add: eval_simps)
  moreover have "filter py_isspace ''Size 8, fits!'' = ''  ''"
    by (simp add: eval_simps)
  ultimately show ?thesis
    using clean_text_chars [of "''Size 8, fits!''"] by (simp add: list_all_iff)
qed

text \<open>
  C8. Cleaning is idempotent: for every string \<open>x\<close>, cleaning the cleaned text gives the
  cleaned text.
\<close>

theorem clean_text_idempotent: "clean_text (clean_text x) = clean_text x"
proof -
  have "filter (\<lambda>c. is_a_to_z c \<or> py_isspace c) (py_lower (clean_text x)) = clean_text x"
    unfolding py_lower_clean_text by (simp add: clean_text_filter)
  then show ?thesis
    by (simp add: clean_text_def[of "clean_text x"])
qed

section \<open>The explanations\<close>

text \<open>
  C6. For every text, keyword table and predicted label: each keyword that
  \<open>get_top_keywords\<close> returns occurs in the lowercased text as a contiguous run and is listed
  under the lowercased label in the table; the keywords come back in the order of the
  table's list (the result is the list with some entries left out); and when the table has
  no entry for the lowercased label the result is the empty list, with no error.
\<close>

theorem get_top_keywords_explains:
  "(\<forall>kw \<in> set (get_top_keywords text keyword_dict label).
       (\<exists>pre suf. py_lower text = pre @ kw @ suf)
       \<and> (\<exists>keywords. map_of keyword_dict (py_lower label) = Some keywords \<and> kw \<in> set keywords))
   \<and> subseq (get_top_keywords text keyword_dict label)
        (dict_get_default keyword_dict (py_lower label) [])
   \<and> (map_of keyword_dict (py_lower label) = None
        \<longrightarrow> get_top_keywords text keyword_dict label = [])"
proof -
  let ?kws = "dict_get_default keyword_dict (py_lower label) []"
  have r: "get_top_keywords text keyword_dict label = filter (\<lambda>kw. sublist kw (py_lower text)) ?kws"
    by (simp add: get_top_keywords_def py_in_def)
  have occurs: "\<exists>pre suf. py_lower text = pre @ kw @ suf"
    if "kw \<in> set (get_top_keywords text keyword_dict label)" for kw
    using that by (auto simp: r sublist_def)
  have listed: "\<exists>keywords. map_of keyword_dict (py_lower label) = Some keywords \<and> kw \<in> set keywords"
    if "kw \<in> set (get_top_keywords text keyword_dict label)" for kw
  proof (cases "map_of keyword_dict (py_lower label)")
    case None
    with that show ?thesis by (simp add: r dict_get_default_def)
  next
    case (Some kws)
    with that show ?thesis by (simp add: r dict_get_default_def)
  qed
  have ordered: "subseq (get_top_keywords text keyword_dict label) ?kws"
    by (simp add: r)
  have absent: "get_top_keywords text keyword_dict label = []"
    if "map_of keyword_dict (py_lower label) = None"
    using that by (simp add: r dict_get_default_def)
  from occurs listed ordered absent show ?thesis by blast
qed

theorem get_top_keywords_explains_witness:
  "get_top_keywords ''Great FIT, poor Fabric'' [(''quality'', [''fabric'', ''zip'', ''fit''])] ''Quality''
     = [''fabric'', ''fit'']
   \<and> list_all (\<lambda>kw. sublist kw (py_lower ''Great FIT, poor Fabric'')) [''fabric'', ''fit'']
   \<and> subseq [''fabric'', ''fit''] [''fabric'', ''zip'', ''fit'']
   \<and> get_top_keywords ''Great FIT, poor Fabric'' [(''quality'', [''fabric'', ''zip'', ''fit''])] ''Price'' = []"
proof -
  let ?d = "[(''quality'', [''fabric'', ''zip'', ''fit''])]"
  have r: "get_top_keywords ''Great FIT, poor Fabric'' ?d ''Quality'' = [''fabric'', ''fit'']"
    by code_simp
  have k: "dict_get_default ?d (py_lower ''Quality'') [] = [''fabric'', ''zip'', ''fit'']"
    by code_simp
  have n: "map_of ?d (py_lower ''Price'') = None"
    by code_simp
  from get_top_keywords_explains [of "''Great FIT, poor Fabric''" ?d "''Quality''"] r k
  have a: "list_all (\<lambda>kw. sublist kw (py_lower ''Great FIT, poor Fabric'')) [''fabric'', ''fit'']
      \<and> subseq [''fabric'', ''fit''] [''fabric'', ''zip'', ''fit'']"
    by (simp add: sublist_def)
  from get_top_keywords_explains [of "''Great FIT, poor Fabric''" ?d "''Price''"] n
  have "get_top_keywords ''Great FIT, poor Fabric'' ?d ''Price'' = []"
    by blast
  with r a show ?thesis by simp
qed

text \<open>
  C3. For every topic mapping (in its iteration order) and every category label, the look-up
  of \<open>main\<close> gives the key of the first entry whose value is the label, and the marker
  \<open>NA\<close> ("N/A"), not an exception, when no entry has that value. For the mapping
  \<^verbatim>\<open>{3: "Tops", 7: "Dresses", 9: "Tops"}\<close> it gives 3 for "Tops" and \<open>NA\<close> for "Shoes".
\<close>

theorem topic_num_first_match:
  "(label \<notin> snd ` set topic_mapping
      \<longrightarrow> main_topic_num (TopicMapping topic_mapping) label = NA)
   \<and> (\<forall>pre k post. topic_mapping = pre @ (k, label) # post \<and> label \<notin> snd ` set pre
          \<longrightarrow> main_topic_num (TopicMapping topic_mapping) label = TopicId k)
   \<and> main_topic_num (TopicMapping [(3, ''Tops''), (7, ''Dresses''), (9, ''Tops'')]) ''Tops''
       = TopicId 3
   \<and> main_topic_num (TopicMapping [(3, ''Tops''), (7, ''Dresses''), (9, ''Tops'')]) ''Shoes''
       = NA"
proof -
  have "topic_num_of [(3, ''Tops''), (7, ''Dresses''), (9, ''Tops'')] ''Tops'' = TopicId 3"
    by (simp add: topic_num_of_def topic_candidates_def)
  moreover have "topic_num_of [(3, ''Tops''), (7, ''Dresses''), (9, ''Tops'')] ''Shoes'' = NA"
    by (simp add: topic_num_of_def topic_candidates_def)
  ultimately show ?thesis
    by (simp add: main_topic_num_def)
       (simp add: topic_num_of_def topic_candidates_none topic_candidates_first)
qed

theorem topic_num_first_match_witness:
  "main_topic_num (TopicMapping [(1, ''Coats''), (4, ''Knits''), (6, ''Knits'')]) ''Knits''
     = TopicId 4
   \<and> main_topic_num (TopicMapping [(1, ''Coats''), (4, ''Knits''), (6, ''Knits'')]) ''Denim''
     = NA"
proof -
  let ?m = "[(1, ''Coats''), (4, ''Knits''), (6, ''Knits'')] :: (int \<times> string) list"
  have split: "?m = [(1, ''Coats'')] @ (4, ''Knits'') # [(6, ''Knits'')]
                \<and> ''Knits'' \<notin> snd ` set [(1 :: int, ''Coats'')]"
    by simp
  have miss: "''Denim'' \<notin> snd ` set ?m"
    by simp
  from topic_num_first_match [of "''Knits''" ?m] split
  have "main_topic_num (TopicMapping ?m) ''Knits'' = TopicId 4" by blast
  moreover from topic_num_first_match [of "''Denim''" ?m] miss
  have "main_topic_num (TopicMapping ?m) ''Denim'' = NA" by blast
  ultimately show ?thesis by simp
qed

text \<open>
  An object that is no dictionary gives the marker as well. The helper
  \<open>get_category_keywords\<close>, which no path of the program calls, builds the same
  candidates and takes the same first one, but without the guard: on a label that no entry
  has, its index raises.
\<close>

lemma main_topic_num_other_object: "main_topic_num OtherObject label = NA"
  by (simp add: main_topic_num_def)

lemma get_category_keywords_hit:
  "topic_num_of topic_mapping label = TopicId k \<Longrightarrow>
   get_category_keywords topic_mapping label = Inr k"
  by (simp add: topic_num_of_def get_category_keywords_def split: list.splits)

lemma get_category_keywords_miss:
  "get_category_keywords [(3, ''Tops''), (7, ''Dresses''), (9, ''Tops'')] ''Shoes'' = Inl IndexError"
  by (simp add: get_category_keywords_def topic_candidates_def)

section \<open>The loader\<close>

text \<open>
  C4. Loading never fails and always gives a well-formed dictionary: its keys are the six
  names, in the order written, whatever the files are. For every path, a file that does not
  exist or a deserializer that raises makes \<open>try_load\<close> return \<open>None\<close>, no exception
  leaves it; so for every key and its path, a missing file or a raising deserializer leaves
  the key bound to \<open>None\<close>.
\<close>

theorem load_models_never_raises:
  "map fst (load_models env) = map fst model_paths
   \<and> (\<forall>path. \<not> path_exists env path \<or> (\<exists>e. joblib_load env path = Inl e)
          \<longrightarrow> try_load env path = None)
   \<and> (\<forall>(name, path) \<in> set model_paths.
          \<not> path_exists env path \<or> (\<exists>e. joblib_load env path = Inl e)
          \<longrightarrow> dict_get (load_models env) name = None)"
proof (intro conjI allI impI ballI)
  show "map fst (load_models env) = map fst model_paths"
    by (rule load_models_keys)
next
  fix path
  assume "\<not> path_exists env path \<or> (\<exists>e. joblib_load env path = Inl e)"
  then show "try_load env path = None"
    by (rule try_load_absent)
next
  fix entry
  assume entry: "entry \<in> set model_paths"
  show "case entry of (name, path) \<Rightarrow>
          \<not> path_exists env path \<or> (\<exists>e. joblib_load env path = Inl e)
          \<longrightarrow> dict_get (load_models env) name = None"
  proof (cases entry)
    case (Pair name path)
    with entry have "dict_get (load_models env) name = try_load env path"
      by (simp add: dict_get_load_models)
    with Pair show ?thesis
      by (simp add: try_load_absent)
  qed
qed

theorem load_models_never_raises_witness:
  "map fst (load_models demo_env) =
     [''sentiment'', ''review_type'', ''product_category'', ''topic_mapping'', ''review_keywords'',
      ''vectorizer'']
   \<and> dict_get (load_models demo_env) ''product_category'' = None
   \<and> dict_get (load_models demo_env) ''topic_mapping'' = None
   \<and> try_load demo_env ''models/department_model.pkl'' = None"
proof -
  have missing: "\<not> path_exists demo_env ''models/department_model.pkl''"
    by (simp add: demo_env_def)
  have corrupt: "\<exists>e. joblib_load demo_env ''models/topic_category_mapping.pkl'' = Inl e"
    by (simp add: demo_env_def)
  have e1: "(''product_category'', ''models/department_model.pkl'') \<in> set model_paths"
    and e2: "(''topic_mapping'', ''models/topic_category_mapping.pkl'') \<in> set model_paths"
    by (simp_all add: model_paths_def)
  note t = load_models_never_raises [of demo_env]
  from t have "map fst (load_models demo_env) = map fst model_paths" by blast
  moreover from t missing have "try_load demo_env ''models/department_model.pkl'' = None" by blast
  moreover from t e1 missing have "dict_get (load_models demo_env) ''product_category'' = None"
    by blast
  moreover from t e2 corrupt have "dict_get (load_models demo_env) ''topic_mapping'' = None"
    by blast
  ultimately show ?thesis by (simp add: model_paths_def)
qed

section \<open>The orchestrator\<close>

text \<open>
  C2. For every review that is empty or made of white space only, pressing "Analyze" gives
  the warning "Please enter a review" and no call of any model's \<open>predict\<close>; the outcome
  is the warning, not an analysis (whose axes could be unavailable).
\<close>

theorem empty_input_short_circuit:
  assumes "\<forall>c \<in> set review. py_isspace c"
  shows "main_analyze env review = (Warning ''Please enter a review'', [])
         \<and> (\<forall>a calls. main_analyze env review \<noteq> (Analysis a, calls))"
  using assms by (simp add: main_analyze_def py_strip_empty_iff)

theorem empty_input_short_circuit_witness:
  "main_analyze demo_env '''' = (Warning ''Please enter a review'', [])
   \<and> main_analyze demo_env ''   '' = (Warning ''Please enter a review'', [])"
proof -
  have "\<forall>c \<in> set ''''. py_isspace c" by simp
  moreover have "\<forall>c \<in> set ''   ''. py_isspace c" by (simp add: py_isspace_def)
  ultimately show ?thesis
    using empty_input_short_circuit [of "''''" demo_env]
      empty_input_short_circuit [of "''   ''" demo_env]
    by blast
qed

text \<open>
  C1. For every review and any two sets of models: an axis whose own entry is the same in
  both has the same result in both, whatever the entries of the other two axes are (absent,
  raising or anything else). The result of an axis is the label \<open>y\<close> exactly when its own
  entry is a classifier whose \<open>predict\<close>, on the cleaned text, returns a sequence that
  starts with \<open>y\<close>; no other entry matters.
\<close>

theorem axis_isolation:
  "(dict_get models ''sentiment'' = dict_get models' ''sentiment''
      \<longrightarrow> sentiment (fst (main_predictions models review))
          = sentiment (fst (main_predictions models' review)))
   \<and> (dict_get models ''review_type'' = dict_get models' ''review_type''
      \<longrightarrow> review_type (fst (main_predictions models review))
          = review_type (fst (main_predictions models' review)))
   \<and> (dict_get models ''product_category'' = dict_get models' ''product_category''
      \<longrightarrow> category (fst (main_predictions models review))
          = category (fst (main_predictions models' review)))
   \<and> (\<forall>y. sentiment (fst (main_predictions models review)) = Some y \<longleftrightarrow>
          (\<exists>predict ys. dict_get models ''sentiment'' = Some (Classifier predict)
             \<and> predict [clean_text review] = Inr (y # ys)))
   \<and> (\<forall>y. review_type (fst (main_predictions models review)) = Some y \<longleftrightarrow>
          (\<exists>predict ys. dict_get models ''review_type'' = Some (Classifier predict)
             \<and> predict [clean_text review] = Inr (y # ys)))
   \<and> (\<forall>y. category (fst (main_predictions models review)) = Some y \<longleftrightarrow>
          (\<exists>predict ys. dict_get models ''product_category'' = Some (Classifier predict)
             \<and> predict [clean_text review] = Inr (y # ys)))"
proof -
  have same: "fst (predict_axis models axis (clean_text review))
              = fst (predict_axis models' axis (clean_text review))"
    if "dict_get models axis = dict_get models' axis" for axis
    using that by (rule fst_predict_axis_cong)
  show ?thesis
    unfolding main_predictions_eq fst_conv analysis.simps fst_predict_axis
    using same by simp
qed

theorem axis_isolation_witness:
  "sentiment (fst (main_predictions (load_models demo_env) ''Nice coat'')) = Some ''Positive''
   \<and> sentiment (fst (main_predictions all_positive ''Nice coat'')) = Some ''Positive''
   \<and> review_type (fst (main_predictions all_positive ''Nice coat'')) = Some ''Positive''
   \<and> review_type (fst (main_predictions (load_models demo_env) ''Nice coat'')) = None"
proof -
  note t = axis_isolation [of all_positive "load_models demo_env" "''Nice coat''"]
  have agree: "dict_get all_positive ''sentiment'' = dict_get (load_models demo_env) ''sentiment''"
    by (simp add: demo_env_sentiment) (simp add: all_positive_def dict_get_def dict_get_default_def)
  have own: "\<exists>predict ys. dict_get all_positive ''sentiment'' = Some (Classifier predict)
               \<and> predict [clean_text ''Nice coat''] = Inr (''Positive'' # ys)"
    by (simp add: all_positive_def dict_get_def dict_get_default_def always_positive_def)
  from t own have s: "sentiment (fst (main_predictions all_positive ''Nice coat'')) = Some ''Positive''"
    by blast
  from t agree have "sentiment (fst (main_predictions all_positive ''Nice coat''))
      = sentiment (fst (main_predictions (load_models demo_env) ''Nice coat''))"
    by blast
  with s have s': "sentiment (fst (main_predictions (load_models demo_env) ''Nice coat'')) = Some ''Positive''"
    by simp
  have r: "review_type (fst (main_predictions all_positive ''Nice coat'')) = Some ''Positive''"
    by (simp add: run_simps all_positive_def)
  have r': "review_type (fst (main_predictions (load_models demo_env) ''Nice coat'')) = None"
    by (simp add: run_simps demo_env_models)
  from s s' r r' show ?thesis by simp
qed

text \<open>
  C5. For every review with a character that is not white space, pressing "Analyze" gives
  an analysis with its three axes and the cleaned text, whatever the models do. An axis
  whose model is there and whose \<open>predict\<close> raises, or returns a sequence with nothing to
  take at index 0, has the result \<open>None\<close>, shown as "Unavailable"; the exception stops
  there.
\<close>

theorem prediction_failure_contained:
  assumes "\<exists>c \<in> set review. \<not> py_isspace c"
  shows "\<exists>a calls. main_analyze env review = (Analysis a, calls)
     \<and> cleaned_text a = clean_text review
     \<and> (\<forall>predict. dict_get (load_models env) ''sentiment'' = Some (Classifier predict)
            \<and> ((\<exists>e. predict [clean_text review] = Inl e) \<or> predict [clean_text review] = Inr [])
          \<longrightarrow> sentiment a = None)
     \<and> (\<forall>predict. dict_get (load_models env) ''review_type'' = Some (Classifier predict)
            \<and> ((\<exists>e. predict [clean_text review] = Inl e) \<or> predict [clean_text review] = Inr [])
          \<longrightarrow> review_type a = None)
     \<and> (\<forall>predict. dict_get (load_models env) ''product_category'' = Some (Classifier predict)
            \<and> ((\<exists>e. predict [clean_text review] = Inl e) \<or> predict [clean_text review] = Inr [])
          \<longrightarrow> category a = None)"
proof -
  let ?models = "load_models env"
  let ?text = "clean_text review"
  have failed: "fst (predict_axis ?models axis ?text) = None"
    if "dict_get ?models axis = Some (Classifier predict)"
      and "(\<exists>e. predict [?text] = Inl e) \<or> predict [?text] = Inr []"
    for axis predict
  proof (cases "fst (predict_axis ?models axis ?text)")
    case None
    then show ?thesis .
  next
    case (Some y)
    then obtain predict' ys where "dict_get ?models axis = Some (Classifier predict')"
      and "predict' [?text] = Inr (y # ys)"
      unfolding fst_predict_axis by blast
    with that show ?thesis by auto
  qed
  from assms have "main_analyze env review =
      (Analysis (fst (main_predictions ?models review)), snd (main_predictions ?models review))"
    by (rule main_analyze_nonblank)
  moreover have "cleaned_text (fst (main_predictions ?models review)) = ?text"
    by (simp add: main_predictions_eq)
  moreover have "sentiment (fst (main_predictions ?models review))
      = fst (predict_axis ?models ''sentiment'' ?text)"
    and "review_type (fst (main_predictions ?models review))
      = fst (predict_axis ?models ''review_type'' ?text)"
    and "category (fst (main_predictions ?models review))
      = fst (predict_axis ?models ''product_category'' ?text)"
    by (simp_all add: main_predictions_eq)
  ultimately show ?thesis
    using failed by (intro exI conjI allI impI) (assumption | simp | blast)+
qed

theorem prediction_failure_contained_witness:
  "\<exists>a calls. main_analyze demo_env ''Nice coat'' = (Analysis a, calls)
     \<and> cleaned_text a = ''nice coat''
     \<and> review_type a = None
     \<and> sentiment a = Some ''Positive''"
proof -
  have nonblank: "\<exists>c \<in> set ''Nice coat''. \<not> py_isspace c"
    by (simp add: py_isspace_def)
  have raises: "\<exists>e. always_fails [clean_text ''Nice coat''] = Inl e"
    by (simp add: always_fails_def)
  have ct: "clean_text ''Nice coat'' = ''nice coat''"
    by (simp add: eval_simps)
  from prediction_failure_contained [OF nonblank, of demo_env]
  obtain a calls where run: "main_analyze demo_env ''Nice coat'' = (Analysis a, calls)"
    and cleaned: "cleaned_text a = clean_text ''Nice coat''"
    and contained: "\<forall>predict. dict_get (load_models demo_env) ''review_type'' = Some (Classifier predict)
            \<and> ((\<exists>e. predict [clean_text ''Nice coat''] = Inl e)
                 \<or> predict [clean_text ''Nice coat''] = Inr [])
          \<longrightarrow> review_type a = None"
    by blast
  from contained demo_env_review_type raises have "review_type a = None"
    by blast
  moreover have "sentiment (fst (main_predictions (load_models demo_env) ''Nice coat'')) = Some ''Positive''"
    by (simp add: run_simps demo_env_models)
  with run nonblank have "sentiment a = Some ''Positive''"
    by (simp add: main_analyze_nonblank)
  ultimately show ?thesis
    using run cleaned ct by simp
qed

text \<open>
  C9. The review "This dress was AMAZING!! 10/10 would buy again." is cleaned to
  "this dress was amazing  would buy again", with two spaces where "!! 10/10 " stood. If
  the sentiment model is there and its \<open>predict\<close> returns "Positive" for that cleaned
  text, the analysis has the sentiment "Positive" and that cleaned text.
\<close>

theorem end_to_end_scenario:
  assumes "dict_get (load_models env) ''sentiment'' = Some (Classifier predict)"
    and "predict [''this dress was amazing  would buy again''] = Inr (''Positive'' # rest)"
  shows "clean_text ''This dress was AMAZING!! 10/10 would buy again.''
           = ''this dress was amazing  would buy again''
     \<and> (\<exists>a calls. main_analyze env ''This dress was AMAZING!! 10/10 would buy again.''
                     = (Analysis a, calls)
           \<and> cleaned_text a = ''this dress was amazing  would buy again''
           \<and> sentiment a = Some ''Positive'')"
proof -
  let ?review = "''This dress was AMAZING!! 10/10 would buy again.''"
  have ct: "clean_text ?review = ''this dress was amazing  would buy again''"
    by (simp add: eval_simps)
  have nonblank: "\<exists>c \<in> set ?review. \<not> py_isspace c"
    by (simp add: py_isspace_def)
  from assms have "fst (predict_axis (load_models env) ''sentiment'' (clean_text ?review))
      = Some ''Positive''"
    unfolding fst_predict_axis ct by blast
  then have "sentiment (fst (main_predictions (load_models env) ?review)) = Some ''Positive''"
    by (simp add: main_predictions_eq)
  moreover have "cleaned_text (fst (main_predictions (load_models env) ?review))
      = ''this dress was amazing  would buy again''"
    by (simp add: main_predictions_eq ct)
  ultimately show ?thesis
    using main_analyze_nonblank [OF nonblank, of env] ct by simp
qed

theorem end_to_end_scenario_witness:
  "\<exists>a calls. main_analyze demo_env ''This dress was AMAZING!! 10/10 would buy again.''
                 = (Analysis a, calls)
     \<and> cleaned_text a = ''this dress was amazing  would buy again''
     \<and> sentiment a = Some ''Positive''"
proof -
  have "always_positive [''this dress was amazing  would buy again''] = Inr (''Positive'' # [])"
    by (simp add: always_positive_def)
  with end_to_end_scenario [OF demo_env_sentiment] show ?thesis
    by blast
qed

text \<open>
  C10. The guard looks at the review as typed, not at the cleaned text. For every review
  with a character that is not white space and with no alphabetic character, the warning is
  not given: the review is analysed, the cleaned text is empty or white space only, and
  \<open>predict\<close> is called with that cleaned text once for each of the three axes whose
  entry is a classifier, in the order sentiment, review type, category, and for no other.
\<close>

theorem non_alphabetic_review_is_classified:
  assumes "\<exists>c \<in> set review. \<not> py_isspace c"
    and "\<forall>c \<in> set review. \<not> py_isalpha c"
  shows "\<exists>a calls. main_analyze env review = (Analysis a, calls)
     \<and> cleaned_text a = clean_text review
     \<and> (\<forall>c \<in> set (clean_text review). py_isspace c)
     \<and> calls = map (\<lambda>axis. Predict axis [clean_text review])
                 (filter (\<lambda>axis. is_classifier (dict_get (load_models env) axis))
                    [''sentiment'', ''review_type'', ''product_category''])"
proof -
  have "snd (main_predictions (load_models env) review)
      = map (\<lambda>axis. Predict axis [clean_text review])
          (filter (\<lambda>axis. is_classifier (dict_get (load_models env) axis))
             [''sentiment'', ''review_type'', ''product_category''])"
    by (simp add: main_predictions_eq snd_predict_axis)
  moreover have "cleaned_text (fst (main_predictions (load_models env) review)) = clean_text review"
    by (simp add: main_predictions_eq)
  moreover from assms(2) have "\<forall>c \<in> set (clean_text review). py_isspace c"
    by (rule clean_text_no_alpha)
  ultimately show ?thesis
    using main_analyze_nonblank [OF assms(1), of env] by simp
qed

theorem non_alphabetic_review_is_classified_witness:
  "\<exists>a. main_analyze demo_env ''123!!!''
          = (Analysis a, [Predict ''sentiment'' [''''], Predict ''review_type'' ['''']])
        \<and> cleaned_text a = ''''"
proof -
  have nonblank: "\<exists>c \<in> set ''123!!!''. \<not> py_isspace c"
    by (simp add: py_isspace_def)
  have no_alpha: "\<forall>c \<in> set ''123!!!''. \<not> py_isalpha c"
    by (simp add: py_isalpha_def)
  have ct: "clean_text ''123!!!'' = ''''"
    by (simp add: eval_simps)
  have slots: "filter (\<lambda>axis. is_classifier (dict_get (load_models demo_env) axis))
      [''sentiment'', ''review_type'', ''product_category''] = [''sentiment'', ''review_type'']"
    by (simp add: demo_env_models dict_get_def dict_get_default_def is_classifier_def)
  from non_alphabetic_review_is_classified [OF nonblank no_alpha, of demo_env]
  show ?thesis
    unfolding slots ct by auto
qed

end
